theory Spec2Isabelle
  imports Complex_Main "HOL-Library.Word" "HOL-Library.Sublist"
begin

section \<open>Strings\<close>

text \<open>
  A JavaScript string is a sequence of UTF-16 code units. String literals of the source
  are written with \<open>js\<close> where they are ASCII; the emoji of the itinerary template and
  the accented letter of one fallback text are given by their code units.
\<close>

type_synonym jsstring = "16 word list"

definition js :: "string \<Rightarrow> jsstring" where
  "js s = map (\<lambda>c. word_of_nat (of_char c)) s"

definition LF :: "16 word" where
  "LF = 0x0A"

section \<open>Data model (interfaces of \<^verbatim>\<open>App.tsx\<close>)\<close>

text \<open>
  The optional coordinates of a \<^verbatim>\<open>Place\<close> are the fields \<open>plat\<close> and \<open>plon\<close>, since
  \<open>lat\<close> and \<open>lon\<close> are the fields of a \<^verbatim>\<open>Location\<close>. Numbers that are only passed on
  (coordinates, temperatures) are reals.
\<close>

record Location =
  lat :: real
  lon :: real

record Place =
  name :: jsstring
  categories :: "jsstring list"
  formatted :: jsstring
  place_id :: jsstring
  plat :: "real option"
  plon :: "real option"

record WeatherDay =
  date :: jsstring
  condition :: jsstring
  icon :: jsstring
  temp :: real
  humidity :: real

section \<open>The itinerary composer (\<^verbatim>\<open>generateItinerary\<close>)\<close>

text \<open>
  \<^verbatim>\<open>Array.prototype.slice(start, end)\<close>: a negative bound counts from the end, both bounds
  are clamped to the array, and an empty range gives the empty array. It never raises.
\<close>

definition arraySlice :: "'a list \<Rightarrow> int \<Rightarrow> int \<Rightarrow> 'a list" where
  "arraySlice xs start end' =
     (let len = int (length xs);
          k = (if start < 0 then max (len + start) 0 else min start len);
          final = (if end' < 0 then max (len + end') 0 else min end' len)
      in take (nat (final - k)) (drop (nat k) xs))"

text \<open>
  \<^verbatim>\<open>Math.min(3, Math.ceil(n / days))\<close> for the length \<open>n\<close> of an array: the quotient is a
  division of numbers, not of integers. For \<open>days \<le> 0\<close> the loop body never runs and the
  value is not used (JavaScript divides by zero to an infinity or \<^verbatim>\<open>NaN\<close>, HOL to 0).
\<close>

definition perDay :: "nat \<Rightarrow> int \<Rightarrow> int" where
  "perDay n days = min 3 \<lceil>real n / real_of_int days\<rceil>"

definition perDayAttractions :: "Place list \<Rightarrow> int \<Rightarrow> int" where
  "perDayAttractions attractions days = perDay (length attractions) days"

definition perDayFood :: "Place list \<Rightarrow> int \<Rightarrow> int" where
  "perDayFood food days = perDay (length food) days"

definition dayAttractions :: "Place list \<Rightarrow> int \<Rightarrow> int \<Rightarrow> Place list" where
  "dayAttractions attractions days i =
     arraySlice attractions (i * perDayAttractions attractions days)
                       ((i + 1) * perDayAttractions attractions days)"

definition dayFood :: "Place list \<Rightarrow> int \<Rightarrow> int \<Rightarrow> Place list" where
  "dayFood food days i =
     arraySlice food (i * perDayFood food days) ((i + 1) * perDayFood food days)"

text \<open>
  \<^verbatim>\<open>places[k]?.name || fallback\<close>: an index past the end reads \<^verbatim>\<open>undefined\<close>, whose
  \<^verbatim>\<open>?.name\<close> is \<^verbatim>\<open>undefined\<close>; \<^verbatim>\<open>||\<close> takes the fallback for every falsy left operand,
  and the only falsy string is the empty one.
\<close>

definition nameOr :: "Place list \<Rightarrow> nat \<Rightarrow> jsstring \<Rightarrow> jsstring" where
  "nameOr places k fallback =
     (if k < length places
      then (if name (places ! k) = [] then fallback else name (places ! k))
      else fallback)"

text \<open>The five fallback literals, as the source writes them.\<close>

definition morningFallback :: jsstring where
  "morningFallback = js ''Explore local neighborhood''"

definition afternoonFallback :: jsstring where
  "afternoonFallback = js ''Relax at a nearby caf'' @ [0xE9] @ js '' or park''"

definition lunchFallback :: jsstring where
  "lunchFallback = js ''Local street food''"

definition dinnerFallback :: jsstring where
  "dinnerFallback = js ''Try a local restaurant''"

definition eveningFallback :: jsstring where
  "eveningFallback = js '' Take a walk or catch a local event''"

definition morning :: "Place list \<Rightarrow> jsstring" where
  "morning das = nameOr das 0 morningFallback"

definition afternoon :: "Place list \<Rightarrow> jsstring" where
  "afternoon das = nameOr das 1 afternoonFallback"

definition lunch :: "Place list \<Rightarrow> jsstring" where
  "lunch df = nameOr df 0 lunchFallback"

definition dinner :: "Place list \<Rightarrow> jsstring" where
  "dinner df = nameOr df 1 dinnerFallback"

definition evening :: "Place list \<Rightarrow> jsstring" where
  "evening das = nameOr das 2 eveningFallback"

text \<open>
  The template literal. Every line of it starts with a line feed and four spaces; the
  label is the emoji and the name of the part of the day, up to the colon.
\<close>

datatype role = Morning | Lunch | Afternoon | Dinner | Evening

fun label :: "role \<Rightarrow> jsstring" where
  "label Morning = [0xD83C, 0xDF05] @ js '' Morning:''"
| "label Lunch = [0xD83C, 0xDF7D, 0xFE0F] @ js '' Lunch:''"
| "label Afternoon = [0xD83C, 0xDFDE, 0xFE0F] @ js '' Afternoon:''"
| "label Dinner = [0xD83C, 0xDF74] @ js '' Dinner:''"
| "label Evening = [0xD83C, 0xDF19] @ js '' Evening:''"

fun verb :: "role \<Rightarrow> jsstring" where
  "verb Morning = js '' Visit ''"
| "verb Lunch = js '' Enjoy at ''"
| "verb Afternoon = js '' Head to ''"
| "verb Dinner = js '' Dine at ''"
| "verb Evening = js '' Visit ''"

definition indent :: jsstring where
  "indent = js ''    ''"

definition templateLine :: "role \<Rightarrow> jsstring \<Rightarrow> jsstring" where
  "templateLine r t = LF # indent @ label r @ verb r @ t"

definition template :: "jsstring \<Rightarrow> jsstring \<Rightarrow> jsstring \<Rightarrow> jsstring \<Rightarrow> jsstring \<Rightarrow> jsstring" where
  "template m l a d e =
     templateLine Morning m @ templateLine Lunch l @ templateLine Afternoon a
       @ templateLine Dinner d @ templateLine Evening e"

definition dayPlan :: "Place list \<Rightarrow> Place list \<Rightarrow> jsstring" where
  "dayPlan das df = template (morning das) (lunch df) (afternoon das) (dinner df) (evening das)"

text \<open>
  The \<^verbatim>\<open>for\<close> loop, with the array \<^verbatim>\<open>itinerary\<close> it pushes to as an accumulator. The
  counter and \<open>days\<close> are integers; the limits of the engine on the size of an array are
  outside the model.
\<close>

function itineraryLoop :: "Place list \<Rightarrow> Place list \<Rightarrow> int \<Rightarrow> int \<Rightarrow> jsstring list \<Rightarrow> jsstring list" where
  "itineraryLoop attractions food days i itinerary =
     (if i < days
      then itineraryLoop attractions food days (i + 1)
             (itinerary @ [dayPlan (dayAttractions attractions days i) (dayFood food days i)])
      else itinerary)"
  by pat_completeness auto
termination
  by (relation "measure (\<lambda>(attractions, food, days, i, itinerary). nat (days - i))") auto

declare itineraryLoop.simps [simp del]

definition generateItinerary :: "Place list \<Rightarrow> Place list \<Rightarrow> int \<Rightarrow> jsstring list" where
  "generateItinerary attractions food days = itineraryLoop attractions food days 0 []"

section \<open>The clients of the three providers\<close>

text \<open>
  What the network answers is a parameter of the model. Each client wraps its whole body
  in \<^verbatim>\<open>try\<close>/\<^verbatim>\<open>catch\<close>, so a rejected \<^verbatim>\<open>fetch\<close>, a body that is not JSON and a
  body without the list the client reads all end in the same value; the answer \<open>None\<close>
  stands for all of them. A client returns its result and the requests it has sent.

  A \<open>Feature\<close> is one element of \<^verbatim>\<open>data.features\<close>: the properties that the client
  replaces when they are missing are optional, and \<open>flon\<close>, \<open>flat\<close> are the two
  coordinates of its geometry.
\<close>

record Feature =
  fname :: "jsstring option"
  fcategories :: "jsstring list option"
  fformatted :: "jsstring option"
  fplace_id :: jsstring
  flon :: real
  flat :: real

record World =
  geocodeApi :: "jsstring \<Rightarrow> Location list option"
  placesApi :: "Location \<Rightarrow> jsstring \<Rightarrow> int \<Rightarrow> Feature list option"
  weatherApi :: "real \<Rightarrow> real \<Rightarrow> int \<Rightarrow> WeatherDay list option"

datatype request =
  GeocodeRequest jsstring
| PlacesRequest Location jsstring int
| WeatherRequest real real int

definition fetchLocationCoordinates :: "World \<Rightarrow> jsstring \<Rightarrow> Location option \<times> request list" where
  "fetchLocationCoordinates w dest =
     ((case geocodeApi w dest of
         Some (result # _) \<Rightarrow> Some \<lparr>lat = lat result, lon = lon result\<rparr>
       | _ \<Rightarrow> None),
      [GeocodeRequest dest])"

definition toPlace :: "Feature \<Rightarrow> Place" where
  "toPlace feature =
     \<lparr>name = (case fname feature of
                 None \<Rightarrow> js ''Unnamed Place''
               | Some n \<Rightarrow> if n = [] then js ''Unnamed Place'' else n),
      categories = (case fcategories feature of None \<Rightarrow> [] | Some cs \<Rightarrow> cs),
      formatted = (case fformatted feature of None \<Rightarrow> [] | Some f \<Rightarrow> f),
      place_id = fplace_id feature,
      plat = Some (flat feature),
      plon = Some (flon feature)\<rparr>"

text \<open>
  \<^verbatim>\<open>fetchPlaces\<close> is called with \<^verbatim>\<open>currentLocation!\<close>, which is \<^verbatim>\<open>null\<close> at run time when
  no location is stored. Building the URL then raises inside the \<^verbatim>\<open>try\<close>, before any
  request is sent, and the client returns the empty list.
\<close>

fun fetchPlaces :: "World \<Rightarrow> Location option \<Rightarrow> jsstring \<Rightarrow> int \<Rightarrow> Place list \<times> request list" where
  "fetchPlaces w None category days = ([], [])"
| "fetchPlaces w (Some location) category days =
     ((case placesApi w location category (days * 5) of
         None \<Rightarrow> []
       | Some features \<Rightarrow> map toPlace features),
      [PlacesRequest location category (days * 5)])"

definition fetchWeatherForecast :: "World \<Rightarrow> real \<Rightarrow> real \<Rightarrow> int \<Rightarrow> WeatherDay list \<times> request list" where
  "fetchWeatherForecast w la lo days =
     ((case weatherApi w la lo days of None \<Rightarrow> [] | Some ds \<Rightarrow> ds),
      [WeatherRequest la lo days])"

section \<open>\<^verbatim>\<open>String.prototype.trim\<close> and \<^verbatim>\<open>parseInt\<close>\<close>

text \<open>The white space and line terminator code units of ECMAScript.\<close>

definition isWhiteSpace :: "16 word \<Rightarrow> bool" where
  "isWhiteSpace c \<longleftrightarrow>
     c \<in> {0x09, 0x0A, 0x0B, 0x0C, 0x0D, 0x20, 0xA0, 0x1680, 0x2028, 0x2029,
          0x202F, 0x205F, 0x3000, 0xFEFF}
     \<or> (0x2000 \<le> c \<and> c \<le> 0x200A)"

definition trim :: "jsstring \<Rightarrow> jsstring" where
  "trim s = rev (dropWhile isWhiteSpace (rev (dropWhile isWhiteSpace s)))"

definition digitValue :: "16 word \<Rightarrow> nat option" where
  "digitValue c =
     (if 0x30 \<le> c \<and> c \<le> 0x39 then Some (unat c - 0x30)
      else if 0x61 \<le> c \<and> c \<le> 0x7A then Some (unat c - 0x61 + 10)
      else if 0x41 \<le> c \<and> c \<le> 0x5A then Some (unat c - 0x41 + 10)
      else None)"

fun leadingDigits :: "nat \<Rightarrow> jsstring \<Rightarrow> nat list" where
  "leadingDigits R [] = []"
| "leadingDigits R (c # cs) =
     (case digitValue c of
        None \<Rightarrow> []
      | Some v \<Rightarrow> if v < R then v # leadingDigits R cs else [])"

definition mathInt :: "nat \<Rightarrow> nat list \<Rightarrow> int" where
  "mathInt R ds = foldl (\<lambda>n v. n * int R + int v) 0 ds"

text \<open>
  \<^verbatim>\<open>parseInt(string)\<close> without a radix: leading white space is skipped, a sign is read, a
  prefix \<^verbatim>\<open>0x\<close> or \<^verbatim>\<open>0X\<close> selects radix 16, and the longest run of digits is the value;
  without a digit the result is \<^verbatim>\<open>NaN\<close>, here \<open>None\<close>. The result is kept as the exact
  integer: the Number of JavaScript rounds it beyond \<open>2^53\<close>, with the same sign and the
  same zero.
\<close>

definition parseInt :: "jsstring \<Rightarrow> int option" where
  "parseInt string =
     (let S = dropWhile isWhiteSpace string;
          sign = (if S \<noteq> [] \<and> hd S = 0x2D then - 1 else 1 :: int);
          S1 = (if S \<noteq> [] \<and> (hd S = 0x2B \<or> hd S = 0x2D) then tl S else S);
          hex = (take 2 S1 = js ''0x'' \<or> take 2 S1 = js ''0X'');
          R = (if hex then 16 else 10);
          S2 = (if hex then drop 2 S1 else S1);
          Z = leadingDigits R S2
      in if Z = [] then None else Some (sign * mathInt R Z))"

section \<open>The conversation controller (\<^verbatim>\<open>App\<close>, \<^verbatim>\<open>handleSend\<close>)\<close>

text \<open>The field \<^verbatim>\<open>text\<close> of a message is \<open>text'\<close>.\<close>

record Message =
  text' :: jsstring
  isBot :: bool
  attractions :: "Place list option"
  food :: "Place list option"
  itinerary :: "jsstring list option"
  weather :: "WeatherDay list option"

datatype Step = Destination | Days

record State =
  messages :: "Message list"
  input :: jsstring
  isLoading :: bool
  currentLocation :: "Location option"
  allPlaces :: "Place list"
  step :: Step
  destination :: jsstring
  tripDays :: "int option"

definition plainMessage :: "jsstring \<Rightarrow> bool \<Rightarrow> Message" where
  "plainMessage t b =
     \<lparr>text' = t, isBot = b, attractions = None, food = None, itinerary = None, weather = None\<rparr>"

definition initialState :: State where
  "initialState =
     \<lparr>messages = [plainMessage (js ''Hello! I'm your travel assistant. Where would you like to go?'') True],
      input = [], isLoading = False, currentLocation = None, allPlaces = [],
      step = Destination, destination = [], tripDays = None\<rparr>"

definition askDaysMessage :: "jsstring \<Rightarrow> Message" where
  "askDaysMessage inp =
     plainMessage (js ''Great! How many days will you be staying in '' @ inp @ js ''?'') True"

definition notFoundMessage :: Message where
  "notFoundMessage =
     plainMessage (js ''I couldn't find that location. Please try again with a different destination.'') True"

definition invalidDaysMessage :: Message where
  "invalidDaysMessage =
     plainMessage (js ''Please enter a valid number of days (e.g., 3, 5, 7).'') True"

definition failureMessage :: Message where
  "failureMessage = plainMessage (js ''Sorry, something went wrong. Try again later.'') True"

definition botMessage :: "jsstring \<Rightarrow> Place list \<Rightarrow> Place list \<Rightarrow> jsstring list \<Rightarrow> WeatherDay list \<Rightarrow> Message" where
  "botMessage dest as fs it ws =
     \<lparr>text' = js ''Here's your travel plan for '' @ dest @ js ''!'', isBot = True,
      attractions = Some as, food = Some fs, itinerary = Some it, weather = Some ws\<rparr>"

definition sightsCategory :: jsstring where
  "sightsCategory = js ''tourism.sights,tourism.attraction''"

definition cateringCategory :: jsstring where
  "cateringCategory = js ''catering.restaurant,catering.fast_food''"

text \<open>
  One call of \<^verbatim>\<open>handleSend\<close> runs in stages, separated by its \<^verbatim>\<open>await\<close>s. The handler
  reads \<^verbatim>\<open>input\<close>, \<^verbatim>\<open>isLoading\<close>, \<^verbatim>\<open>step\<close>, \<^verbatim>\<open>currentLocation\<close> and \<^verbatim>\<open>destination\<close> as they
  were when it was called (\<open>st\<close> below) and writes through the setters.

  The guard of line 151 and the updates made before the first \<^verbatim>\<open>await\<close>:
\<close>

definition guarded :: "State \<Rightarrow> bool" where
  "guarded st \<longleftrightarrow> trim (input st) = [] \<or> isLoading st"

definition sendStarted :: "State \<Rightarrow> State" where
  "sendStarted st =
     st\<lparr>isLoading := True, messages := messages st @ [plainMessage (input st) False]\<rparr>"

definition daysAccepted :: "State \<Rightarrow> int \<Rightarrow> State" where
  "daysAccepted st days = (sendStarted st)\<lparr>tripDays := Some days, input := []\<rparr>"

definition placesLoaded :: "State \<Rightarrow> int \<Rightarrow> Place list \<Rightarrow> Place list \<Rightarrow> State" where
  "placesLoaded st days as fs = (daysAccepted st days)\<lparr>allPlaces := as @ fs\<rparr>"

text \<open>
  The body of the \<^verbatim>\<open>try\<close> block. It ends normally or by an exception; the updates made
  before the exception stay. The one place where the body can raise is the read of
  \<^verbatim>\<open>location.lat\<close> for the weather call when \<^verbatim>\<open>location\<close> is \<^verbatim>\<open>null\<close>: the clients
  catch whatever is raised inside them.
\<close>

datatype exn = TypeError

datatype completion = Normal | Throw exn

definition tryBody :: "World \<Rightarrow> State \<Rightarrow> int \<Rightarrow> completion \<times> State \<times> request list" where
  "tryBody w st days =
     (let location = currentLocation st;
          (as, reqs1) = fetchPlaces w location sightsCategory days;
          (fs, reqs2) = fetchPlaces w location cateringCategory days;
          it = generateItinerary as fs days;
          st3 = placesLoaded st days as fs
      in case location of
           None \<Rightarrow> (Throw TypeError, st3, reqs1 @ reqs2)
         | Some loc \<Rightarrow>
             (let (ws, reqs3) = fetchWeatherForecast w (lat loc) (lon loc) days
              in (Normal,
                  st3\<lparr>messages := messages st3 @ [botMessage (destination st) as fs it ws],
                      step := Destination\<rparr>,
                  reqs1 @ reqs2 @ reqs3)))"

text \<open>The two branches of the handler, and the rejection of a day count (lines 177 to 185).\<close>

definition destinationBranch :: "World \<Rightarrow> State \<Rightarrow> State \<times> request list" where
  "destinationBranch w st =
     (let (location, reqs) = fetchLocationCoordinates w (input st)
      in case location of
           Some loc \<Rightarrow>
             ((sendStarted st)
                \<lparr>destination := input st, currentLocation := Some loc, step := Days,
                 input := [],
                 messages := messages (sendStarted st) @ [askDaysMessage (input st)],
                 isLoading := False\<rparr>,
              reqs)
         | None \<Rightarrow>
             ((sendStarted st)
                \<lparr>messages := messages (sendStarted st) @ [notFoundMessage],
                 input := [], isLoading := False\<rparr>,
              reqs))"

definition rejectDays :: "State \<Rightarrow> State" where
  "rejectDays st =
     (sendStarted st)
       \<lparr>messages := messages (sendStarted st) @ [invalidDaysMessage],
        input := [], isLoading := False\<rparr>"

definition tryCatch :: "World \<Rightarrow> State \<Rightarrow> int \<Rightarrow> State \<times> request list" where
  "tryCatch w st days =
     (case tryBody w st days of
        (Normal, st', reqs) \<Rightarrow> (st'\<lparr>isLoading := False\<rparr>, reqs)
      | (Throw e, st', reqs) \<Rightarrow>
          (st'\<lparr>messages := messages st' @ [failureMessage], isLoading := False\<rparr>, reqs))"

definition daysBranch :: "World \<Rightarrow> State \<Rightarrow> State \<times> request list" where
  "daysBranch w st =
     (case parseInt (trim (input st)) of
        None \<Rightarrow> (rejectDays st, [])
      | Some days \<Rightarrow> if days \<le> 0 then (rejectDays st, []) else tryCatch w st days)"

definition handleSend :: "World \<Rightarrow> State \<Rightarrow> State \<times> request list" where
  "handleSend w st =
     (if guarded st then (st, [])
      else case step st of
        Destination \<Rightarrow> destinationBranch w st
      | Days \<Rightarrow> daysBranch w st)"

text \<open>
  The states that are on screen while a call of \<^verbatim>\<open>handleSend\<close> waits at one of its
  \<^verbatim>\<open>await\<close>s: after the guard, and in the day branch before the weather call.
\<close>

definition inFlight :: "World \<Rightarrow> State \<Rightarrow> State list" where
  "inFlight w st =
     (if guarded st then []
      else case step st of
        Destination \<Rightarrow> [sendStarted st]
      | Days \<Rightarrow>
          (case parseInt (trim (input st)) of
             None \<Rightarrow> []
           | Some days \<Rightarrow>
               if days \<le> 0 then []
               else daysAccepted st days #
                 (case currentLocation st of
                    None \<Rightarrow> []
                  | Some loc \<Rightarrow>
                      [placesLoaded st days
                         (fst (fetchPlaces w (Some loc) sightsCategory days))
                         (fst (fetchPlaces w (Some loc) cateringCategory days))])))"

text \<open>
  The states the controller can be in: the initial one, what typing into the text area
  makes of a state that is not loading, what a call of the handler leaves, and what is on
  screen during a call.
\<close>

inductive reachable :: "State \<Rightarrow> bool" where
  reach_init: "reachable initialState"
| reach_type: "reachable st \<Longrightarrow> \<not> isLoading st \<Longrightarrow> reachable (st\<lparr>input := s\<rparr>)"
| reach_send: "reachable st \<Longrightarrow> reachable (fst (handleSend w st))"
| reach_wait: "reachable st \<Longrightarrow> st' \<in> set (inFlight w st) \<Longrightarrow> reachable st'"

section \<open>Reading a day's plan line by line\<close>

text \<open>
  The lines of a string are what \<^verbatim>\<open>split('\n')\<close> gives. A line is labeled when it starts
  with the indentation and the label of a part of the day; \<open>labeledLines\<close> lists the
  parts of the day of the labeled lines of a string, in their order.
\<close>

fun splitLines :: "jsstring \<Rightarrow> jsstring list" where
  "splitLines [] = [[]]"
| "splitLines (c # cs) =
     (if c = LF then [] # splitLines cs
      else (case splitLines cs of l # ls \<Rightarrow> (c # l) # ls | [] \<Rightarrow> [[c]]))"

definition lineRole :: "jsstring \<Rightarrow> role option" where
  "lineRole l =
     find (\<lambda>r. prefix (indent @ label r) l) [Morning, Lunch, Afternoon, Dinner, Evening]"

definition labeledLines :: "jsstring \<Rightarrow> role list" where
  "labeledLines s = List.map_filter lineRole (splitLines s)"

section \<open>Values used in the examples\<close>

definition placeNamed :: "jsstring \<Rightarrow> Place" where
  "placeNamed n =
     \<lparr>name = n, categories = [], formatted = [], place_id = n, plat = None, plon = None\<rparr>"

text \<open>The evening fallback as the specification words it, without the leading space.\<close>

definition specEveningFallback :: jsstring where
  "specEveningFallback = js ''Take a walk or catch a local event''"

definition paris :: Location where
  "paris = \<lparr>lat = 48, lon = 2\<rparr>"

text \<open>A world where every destination is found at \<open>paris\<close> and no place or forecast is.\<close>

definition parisWorld :: World where
  "parisWorld =
     \<lparr>geocodeApi = (\<lambda>dest. Some [paris]),
      placesApi = (\<lambda>location category limit. Some []),
      weatherApi = (\<lambda>la lo days. Some [])\<rparr>"

text \<open>A full cycle: \<^verbatim>\<open>Paris\<close> is typed and sent, then \<^verbatim>\<open>3\<close> is typed and sent.\<close>

definition askedForDays :: State where
  "askedForDays = fst (handleSend parisWorld (initialState\<lparr>input := js ''Paris''\<rparr>))"

definition cycleEnd :: State where
  "cycleEnd = fst (handleSend parisWorld (askedForDays\<lparr>input := js ''3''\<rparr>))"


section \<open>The loop of the composer\<close>

lemma perDay_div: "perDay n days = min 3 (- ((- int n) div days))"
  using ceiling_divide_eq_div [of "int n" days, where ?'a = real]
  by (simp add: perDay_def)

lemma itineraryLoop_eq:
  "itineraryLoop A F days i acc =
     acc @ map (\<lambda>j. dayPlan (dayAttractions A days j) (dayFood F days j)) [i..days - 1]"
proof (induction A F days i acc rule: itineraryLoop.induct)
  case (1 A F days i acc)
  show ?case
  proof (cases "i < days")
    case True
    then have "[i..days - 1] = i # [i + 1..days - 1]"
      by (simp add: upto_rec1)
    with True 1 show ?thesis
      by (subst itineraryLoop.simps) simp
  next
    case False
    then show ?thesis
      by (subst itineraryLoop.simps) simp
  qed
qed

lemma generateItinerary_eq:
  "generateItinerary A F days =
     map (\<lambda>j. dayPlan (dayAttractions A days j) (dayFood F days j)) [0..days - 1]"
  by (simp add: generateItinerary_def itineraryLoop_eq)

lemma generateItinerary_one:
  "generateItinerary A F 1 = [dayPlan (dayAttractions A 1 0) (dayFood F 1 0)]"
  by (simp add: generateItinerary_eq)

text \<open>
  C1. For all place lists \<open>A\<close>, \<open>F\<close> and every integer \<open>days \<ge> 1\<close>,
  \<open>generateItinerary A F days\<close> has exactly \<open>days\<close> entries, and its entry at index \<open>k\<close>
  is the plan of day \<open>k + 1\<close>, made of the slices of that day. The function is total: the
  loop it is defined by terminates (the termination proof of \<open>itineraryLoop\<close>), and no
  step of it can fail.
\<close>

theorem generateItinerary_days:
  "1 \<le> days \<Longrightarrow>
     length (generateItinerary A F days) = nat days \<and>
     (\<forall>k < nat days. generateItinerary A F days ! k
        = dayPlan (dayAttractions A days (int k)) (dayFood F days (int k)))"
  by (simp add: generateItinerary_eq)

theorem generateItinerary_days_witness:
  "(1::int) \<le> 2 \<and>
   length (generateItinerary [placeNamed (js ''Louvre'')] [] 2) = 2 \<and>
   generateItinerary [placeNamed (js ''Louvre'')] [] 2 ! 1
     = dayPlan (dayAttractions [placeNamed (js ''Louvre'')] 2 1) (dayFood [] 2 1)"
  using generateItinerary_days [of 2 "[placeNamed (js ''Louvre'')]" "[]"]
  by simp

section \<open>The lines of a day's plan\<close>

lemma splitLines_no_LF: "LF \<notin> set s \<Longrightarrow> splitLines s = [s]"
  by (induction s) auto

lemma splitLines_append_LF:
  "LF \<notin> set xs \<Longrightarrow> splitLines (xs @ LF # ys) = xs # splitLines ys"
  by (induction xs) auto

lemma LF_notin_template_parts:
  "LF \<notin> set indent" "LF \<notin> set (label r)" "LF \<notin> set (verb r)"
  by (cases r; simp add: indent_def js_def LF_def)+

lemma LF_notin_fallbacks:
  "LF \<notin> set morningFallback" "LF \<notin> set afternoonFallback" "LF \<notin> set lunchFallback"
  "LF \<notin> set dinnerFallback" "LF \<notin> set eveningFallback"
  by (simp_all add: morningFallback_def afternoonFallback_def lunchFallback_def
      dinnerFallback_def eveningFallback_def js_def LF_def)

lemma lineRole_templateLine: "lineRole (indent @ label r @ verb r @ t) = Some r"
  by (cases r; simp add: lineRole_def indent_def js_def)

lemma lineRole_empty: "lineRole [] = None"
  by (simp add: lineRole_def indent_def js_def)

lemma splitLines_templateLine:
  "LF \<notin> set t \<Longrightarrow>
     splitLines (indent @ label r @ verb r @ t @ LF # ys)
       = (indent @ label r @ verb r @ t) # splitLines ys"
  using splitLines_append_LF [of "indent @ label r @ verb r @ t" ys]
  by (simp add: LF_notin_template_parts del: label.simps verb.simps)

lemma splitLines_lastLine:
  "LF \<notin> set t \<Longrightarrow>
     splitLines (indent @ label r @ verb r @ t) = [indent @ label r @ verb r @ t]"
  by (intro splitLines_no_LF) (simp add: LF_notin_template_parts del: label.simps verb.simps)

lemma splitLines_template:
  assumes "LF \<notin> set m" "LF \<notin> set l" "LF \<notin> set a" "LF \<notin> set d" "LF \<notin> set e"
  shows "splitLines (template m l a d e) =
           [[], indent @ label Morning @ verb Morning @ m,
                indent @ label Lunch @ verb Lunch @ l,
                indent @ label Afternoon @ verb Afternoon @ a,
                indent @ label Dinner @ verb Dinner @ d,
                indent @ label Evening @ verb Evening @ e]"
  using assms
  by (simp add: template_def templateLine_def splitLines_templateLine splitLines_lastLine
      del: label.simps verb.simps)

lemma labeledLines_template:
  assumes "LF \<notin> set m" "LF \<notin> set l" "LF \<notin> set a" "LF \<notin> set d" "LF \<notin> set e"
  shows "labeledLines (template m l a d e) = [Morning, Lunch, Afternoon, Dinner, Evening]"
  unfolding labeledLines_def splitLines_template [OF assms]
  by (simp add: List.map_filter_simps lineRole_templateLine lineRole_empty
      del: label.simps verb.simps)

lemma set_arraySlice: "set (arraySlice xs s e) \<subseteq> set xs"
  unfolding arraySlice_def Let_def
  by (meson set_take_subset set_drop_subset subset_trans)

lemma nameOr_cases:
  "nameOr ps k fb = fb \<or> (\<exists>p \<in> set ps. nameOr ps k fb = name p)"
  by (auto simp: nameOr_def)

lemma LF_notin_nameOr:
  "\<forall>p \<in> set ps. LF \<notin> set (name p) \<Longrightarrow> LF \<notin> set fb \<Longrightarrow> LF \<notin> set (nameOr ps k fb)"
  using nameOr_cases [of ps k fb] by auto

text \<open>
  C2, as amended. When no name among the attractions and the food places contains a line
  feed, every string that \<open>generateItinerary\<close> returns is an empty first line followed by
  exactly five lines, which are labeled morning, lunch, afternoon, dinner, evening in this
  order, each starting with the indentation and its label. (For every input the string is
  the template filled with five texts; a name that contains a line feed adds lines of its
  own.)
\<close>

theorem dayPlan_lines:
  assumes names: "\<forall>p \<in> set A \<union> set F. LF \<notin> set (name p)"
    and day: "day \<in> set (generateItinerary A F days)"
  shows "labeledLines day = [Morning, Lunch, Afternoon, Dinner, Evening] \<and>
         (\<exists>m l a d e. splitLines day =
            [[], indent @ label Morning @ verb Morning @ m,
                 indent @ label Lunch @ verb Lunch @ l,
                 indent @ label Afternoon @ verb Afternoon @ a,
                 indent @ label Dinner @ verb Dinner @ d,
                 indent @ label Evening @ verb Evening @ e])"
proof -
  from day obtain j where
    d: "day = dayPlan (dayAttractions A days j) (dayFood F days j)"
    by (auto simp: generateItinerary_eq)
  let ?das = "dayAttractions A days j" and ?df = "dayFood F days j"
  have a: "\<forall>p \<in> set ?das. LF \<notin> set (name p)"
    using names set_arraySlice [of A] by (auto simp: dayAttractions_def)
  have f: "\<forall>p \<in> set ?df. LF \<notin> set (name p)"
    using names set_arraySlice [of F] by (auto simp: dayFood_def)
  have m: "LF \<notin> set (morning ?das)" "LF \<notin> set (afternoon ?das)" "LF \<notin> set (evening ?das)"
    using a
    by (simp_all add: morning_def afternoon_def evening_def LF_notin_nameOr LF_notin_fallbacks)
  have l: "LF \<notin> set (lunch ?df)" "LF \<notin> set (dinner ?df)"
    using f by (simp_all add: lunch_def dinner_def LF_notin_nameOr LF_notin_fallbacks)
  show ?thesis
    unfolding d dayPlan_def
    using splitLines_template [OF m(1) l(1) m(2) l(2) m(3)]
      labeledLines_template [OF m(1) l(1) m(2) l(2) m(3)]
    by blast
qed

theorem dayPlan_lines_witness:
  "labeledLines (generateItinerary [placeNamed (js ''Louvre'')] [placeNamed (js ''Bistro'')] 1 ! 0)
     = [Morning, Lunch, Afternoon, Dinner, Evening]"
  using dayPlan_lines [of "[placeNamed (js ''Louvre'')]" "[placeNamed (js ''Bistro'')]"
      "generateItinerary [placeNamed (js ''Louvre'')] [placeNamed (js ''Bistro'')] 1 ! 0" 1]
  by (simp add: generateItinerary_one placeNamed_def js_def LF_def)

text \<open>
  C2 as stated fails: one attraction whose name holds a line feed followed by the
  indentation and the evening label gives a plan with six labeled lines, the second of
  them an evening line.
\<close>

theorem dayPlan_lines_counterexample:
  "labeledLines
     (generateItinerary
        [placeNamed (js ''Louvre'' @ [LF] @ indent @ label Evening @ js '' Visit Bar'')] [] 1 ! 0)
     = [Morning, Evening, Lunch, Afternoon, Dinner, Evening]"
  by (simp add: generateItinerary_one dayAttractions_def dayFood_def perDayAttractions_def
      perDayFood_def perDay_div arraySlice_def dayPlan_def morning_def afternoon_def evening_def
      lunch_def dinner_def nameOr_def placeNamed_def template_def templateLine_def
      labeledLines_def lineRole_def indent_def js_def LF_def morningFallback_def
      afternoonFallback_def eveningFallback_def lunchFallback_def dinnerFallback_def
      List.map_filter_simps)

section \<open>Fallback texts and the assignment of places to the parts of the day\<close>

lemma perDay_bounds: "1 \<le> days \<Longrightarrow> 0 \<le> perDay n days \<and> perDay n days \<le> 3"
  by (simp add: perDay_div div_nonpos_pos_le0)

lemma perDay_one: "perDay n 1 = min 3 (int n)"
  by (simp add: perDay_div)

lemma arraySlice_empty: "arraySlice [] s e = []"
  by (simp add: arraySlice_def)

lemma arraySlice_first: "0 \<le> e \<Longrightarrow> arraySlice xs 0 e = take (nat e) xs"
  by (auto simp: arraySlice_def Let_def min_def)

lemma dayPlan_empty:
  "dayPlan [] [] =
     template morningFallback lunchFallback afternoonFallback dinnerFallback eveningFallback"
  by (simp add: dayPlan_def morning_def lunch_def afternoon_def dinner_def evening_def nameOr_def)

text \<open>
  C3. Without any place, every entry is the template filled with the five fallback texts
  of the code, for every number of days. Four of them are the texts of the claim. The
  evening text of the code is not: it starts with a space, which the claim's text
  \<^verbatim>\<open>Take a walk or catch a local event\<close> does not, so that the evening line reads
  \<^verbatim>\<open>Evening: Visit\<close>, two spaces, \<^verbatim>\<open>Take a walk ...\<close>.
\<close>

theorem generateItinerary_no_places:
  "generateItinerary [] [] N =
     replicate (nat N)
       (template (js ''Explore local neighborhood'') (js ''Local street food'')
          (js ''Relax at a nearby caf'' @ [0xE9] @ js '' or park'') (js ''Try a local restaurant'')
          (0x20 # specEveningFallback)) \<and>
   evening [] = 0x20 # specEveningFallback \<and>
   evening [] \<noteq> specEveningFallback"
proof -
  have e: "eveningFallback = 0x20 # specEveningFallback"
    by (simp add: eveningFallback_def specEveningFallback_def js_def)
  have "map (\<lambda>j. dayPlan [] []) [0..N - 1] = replicate (nat N) (dayPlan [] [])"
    by (simp add: map_replicate_const)
  then have "generateItinerary [] [] N = replicate (nat N) (dayPlan [] [])"
    by (simp add: generateItinerary_eq dayAttractions_def dayFood_def arraySlice_empty)
  moreover have "evening [] = eveningFallback"
    by (simp add: evening_def nameOr_def)
  ultimately show ?thesis
    by (simp add: dayPlan_empty e morningFallback_def lunchFallback_def afternoonFallback_def
        dinnerFallback_def)
qed

text \<open>
  C4, as amended. With at least three attractions and two food places whose first names
  (three attractions, two food places) are not empty, the one entry of \<open>generateItinerary A F 1\<close>
  is the template filled with the names of \<open>A ! 0\<close> (morning), \<open>F ! 0\<close> (lunch), \<open>A ! 1\<close>
  (afternoon), \<open>F ! 1\<close> (dinner) and \<open>A ! 2\<close> (evening): no slot takes its fallback.
\<close>

theorem generateItinerary_one_day:
  assumes "3 \<le> length A" "2 \<le> length F"
    and "name (A ! 0) \<noteq> []" "name (A ! 1) \<noteq> []" "name (A ! 2) \<noteq> []"
    and "name (F ! 0) \<noteq> []" "name (F ! 1) \<noteq> []"
  shows "generateItinerary A F 1 =
           [template (name (A ! 0)) (name (F ! 0)) (name (A ! 1)) (name (F ! 1)) (name (A ! 2))]"
proof -
  have a: "dayAttractions A 1 0 = take 3 A"
    using assms(1)
    by (simp add: dayAttractions_def perDayAttractions_def perDay_one arraySlice_first)
  have f: "dayFood F 1 0 = take (min 3 (length F)) F"
    by (simp add: dayFood_def perDayFood_def perDay_one arraySlice_first min_def)
  have m: "morning (take 3 A) = name (A ! 0)" "afternoon (take 3 A) = name (A ! 1)"
    "evening (take 3 A) = name (A ! 2)"
    using assms(1,3,4,5) by (simp_all add: morning_def afternoon_def evening_def nameOr_def)
  have l: "lunch (take (min 3 (length F)) F) = name (F ! 0)"
    "dinner (take (min 3 (length F)) F) = name (F ! 1)"
    using assms(2,6,7) by (auto simp: lunch_def dinner_def nameOr_def min_def)
  show ?thesis
    by (simp add: generateItinerary_one a f dayPlan_def m l)
qed

theorem generateItinerary_one_day_witness:
  "generateItinerary
     [placeNamed (js ''Louvre''), placeNamed (js ''Orsay''), placeNamed (js ''Seine'')]
     [placeNamed (js ''Bistro''), placeNamed (js ''Cafe'')] 1
   = [template (js ''Louvre'') (js ''Bistro'') (js ''Orsay'') (js ''Cafe'') (js ''Seine'')]"
  using generateItinerary_one_day
    [of "[placeNamed (js ''Louvre''), placeNamed (js ''Orsay''), placeNamed (js ''Seine'')]"
        "[placeNamed (js ''Bistro''), placeNamed (js ''Cafe'')]"]
  by (simp add: placeNamed_def js_def)

text \<open>
  C4 as stated fails: with three attractions and two food places, the first attraction
  having the empty name, the morning slot holds the morning fallback and not the name of
  \<open>A ! 0\<close>.
\<close>

theorem generateItinerary_one_day_counterexample:
  "3 \<le> length [placeNamed [], placeNamed (js ''Orsay''), placeNamed (js ''Seine'')] \<and>
   2 \<le> length [placeNamed (js ''Bistro''), placeNamed (js ''Cafe'')] \<and>
   generateItinerary
     [placeNamed [], placeNamed (js ''Orsay''), placeNamed (js ''Seine'')]
     [placeNamed (js ''Bistro''), placeNamed (js ''Cafe'')] 1
   = [template morningFallback (js ''Bistro'') (js ''Orsay'') (js ''Cafe'') (js ''Seine'')] \<and>
   morningFallback \<noteq> name ([placeNamed [], placeNamed (js ''Orsay''), placeNamed (js ''Seine'')] ! 0)"
  by (simp add: generateItinerary_one dayAttractions_def dayFood_def perDayAttractions_def
      perDayFood_def perDay_div arraySlice_def dayPlan_def morning_def afternoon_def evening_def
      lunch_def dinner_def nameOr_def placeNamed_def js_def morningFallback_def)


section \<open>The slices of the days\<close>

lemma perDay_covers:
  assumes "1 \<le> days" "perDay n days < 3"
  shows "int n \<le> days * perDay n days"
proof -
  have "days * ((- int n) div days) + (- int n) mod days = - int n"
    by simp
  moreover have "0 \<le> (- int n) mod days"
    using assms(1) by simp
  ultimately have "days * ((- int n) div days) \<le> - int n"
    by linarith
  moreover have "perDay n days = - ((- int n) div days)"
    using assms(2) by (simp add: perDay_div min_def split: if_splits)
  ultimately show ?thesis by simp
qed

lemma arraySlice_chunk:
  assumes "0 \<le> i" "0 \<le> p"
  shows "arraySlice xs (i * p) ((i + 1) * p) = take (nat p) (drop (nat i * nat p) xs)"
proof -
  have s: "0 \<le> i * p" using assms by simp
  have e: "(i + 1) * p = i * p + p" by (simp add: algebra_simps)
  have n: "nat (i * p) = nat i * nat p" using assms by (simp add: nat_mult_distrib)
  show ?thesis
  proof (cases "i * p \<le> int (length xs)")
    case True
    then have "take (nat (min (i * p + p) (int (length xs)) - i * p)) (drop (nat (i * p)) xs)
                 = take (nat p) (drop (nat (i * p)) xs)"
      using s assms(2) by (intro take_equalityI) (auto simp: min_def)
    with True s assms(2) show ?thesis
      by (simp add: arraySlice_def e n [symmetric] min_def)
  next
    case False
    with s assms(2) show ?thesis
      by (simp add: arraySlice_def e n [symmetric] min_def)
  qed
qed

lemma length_arraySlice_chunk:
  assumes "0 \<le> i" "0 \<le> p" "p \<le> 3"
  shows "length (arraySlice xs (i * p) ((i + 1) * p)) \<le> 3"
proof -
  have "length (arraySlice xs (i * p) ((i + 1) * p)) \<le> nat p"
    by (simp add: arraySlice_chunk [OF assms(1,2)])
  moreover have "nat p \<le> 3" using assms(3) by linarith
  ultimately show ?thesis by (rule le_trans)
qed

lemma upto_map_int: "[0..int d - 1] = map int [0..<d]"
proof (induction d)
  case 0
  then show ?case by simp
next
  case (Suc d)
  have "[0..int (Suc d) - 1] = [0..int d - 1] @ [int d]"
    using upto_rec2 [of 0 "int d"] by simp
  with Suc show ?case by simp
qed

lemma concat_chunks:
  "concat (map (\<lambda>i. take p (drop (i * p) xs)) [0..<d]) = take (d * p) xs"
proof (induction d)
  case 0
  then show ?case by simp
next
  case (Suc d)
  then show ?case
    by (simp add: take_add [symmetric] add.commute)
qed

lemma concat_day_slices:
  assumes "1 \<le> days"
  shows "concat (map (\<lambda>i. arraySlice xs (i * perDay (length xs) days)
                              ((i + 1) * perDay (length xs) days)) [0..days - 1])
           = take (3 * nat days) xs"
proof -
  let ?p = "perDay (length xs) days"
  have p: "0 \<le> ?p" "?p \<le> 3"
    using perDay_bounds [OF assms] by simp_all
  have "[0..days - 1] = map int [0..<nat days]"
    using assms upto_map_int [of "nat days"] by simp
  then have "concat (map (\<lambda>i. arraySlice xs (i * ?p) ((i + 1) * ?p)) [0..days - 1])
               = concat (map (\<lambda>i. take (nat ?p) (drop (i * nat ?p) xs)) [0..<nat days])"
    using p(1) by (simp add: arraySlice_chunk comp_def)
  also have "\<dots> = take (nat days * nat ?p) xs"
    by (rule concat_chunks)
  also have "\<dots> = take (3 * nat days) xs"
  proof (cases "?p = 3")
    case True
    then show ?thesis by (simp add: mult.commute)
  next
    case False
    with p have "?p < 3" by simp
    from perDay_covers [OF assms this] have "int (length xs) \<le> days * ?p" .
    then have "int (length xs) \<le> int (nat days * nat ?p)"
      using assms p(1) by simp
    then have a: "length xs \<le> nat days * nat ?p"
      by (simp only: of_nat_le_iff)
    have "nat ?p \<le> 3" using p by linarith
    then have "nat days * nat ?p \<le> nat days * 3"
      by (rule mult_le_mono2)
    with a have "length xs \<le> 3 * nat days" by linarith
    with a show ?thesis by simp
  qed
  finally show ?thesis .
qed

text \<open>
  C5, as amended. For \<open>days \<ge> 1\<close> the slice of a day holds at most 3 attractions and at
  most 3 food places, and the slices of days 1 to \<open>days\<close>, one after the other, are the
  first \<open>3 * days\<close> elements of the input, in order: every attraction (food place) is in
  the slice of some day when there are at most \<open>3 * days\<close> of them, and those past the
  first \<open>3 * days\<close> are in no slice.
\<close>

theorem day_slices_cover:
  assumes "1 \<le> days"
  shows "(0 \<le> i \<longrightarrow> length (dayAttractions A days i) \<le> 3 \<and> length (dayFood F days i) \<le> 3) \<and>
         concat (map (dayAttractions A days) [0..days - 1]) = take (3 * nat days) A \<and>
         concat (map (dayFood F days) [0..days - 1]) = take (3 * nat days) F"
proof -
  have a: "length (dayAttractions A days i) \<le> 3" if "0 \<le> i"
    using length_arraySlice_chunk [OF that, of "perDay (length A) days" A]
      perDay_bounds [OF assms, of "length A"]
    by (simp add: dayAttractions_def perDayAttractions_def)
  have f: "length (dayFood F days i) \<le> 3" if "0 \<le> i"
    using length_arraySlice_chunk [OF that, of "perDay (length F) days" F]
      perDay_bounds [OF assms, of "length F"]
    by (simp add: dayFood_def perDayFood_def)
  have ca: "concat (map (dayAttractions A days) [0..days - 1]) = take (3 * nat days) A"
    using concat_day_slices [OF assms, of A]
    by (simp add: dayAttractions_def [abs_def] perDayAttractions_def)
  have cf: "concat (map (dayFood F days) [0..days - 1]) = take (3 * nat days) F"
    using concat_day_slices [OF assms, of F]
    by (simp add: dayFood_def [abs_def] perDayFood_def)
  from a f ca cf show ?thesis by simp
qed

theorem day_slices_cover_witness:
  "length (dayAttractions (map placeNamed [js ''a'', js ''b'', js ''c'', js ''d'']) 2 1) \<le> 3 \<and>
   concat (map (dayAttractions (map placeNamed [js ''a'', js ''b'', js ''c'', js ''d'']) 2) [0..2 - 1])
     = map placeNamed [js ''a'', js ''b'', js ''c'', js ''d'']"
  using day_slices_cover [of 2 1 "map placeNamed [js ''a'', js ''b'', js ''c'', js ''d'']" "[]"]
  by simp

text \<open>
  C5 as stated fails: of four attractions and one day, the per-day number is 3, the only
  slice is that of day 1, and the fourth attraction is not in it.
\<close>

theorem day_slices_cover_counterexample:
  "perDayAttractions (map placeNamed [js ''a'', js ''b'', js ''c'', js ''d'']) 1 = 3 \<and>
   length (generateItinerary (map placeNamed [js ''a'', js ''b'', js ''c'', js ''d'']) [] 1) = 1 \<and>
   placeNamed (js ''d'') \<in> set (map placeNamed [js ''a'', js ''b'', js ''c'', js ''d'']) \<and>
   placeNamed (js ''d'')
     \<notin> set (dayAttractions (map placeNamed [js ''a'', js ''b'', js ''c'', js ''d'']) 1 0)"
  by (simp add: generateItinerary_one dayAttractions_def perDayAttractions_def perDay_div
      arraySlice_def placeNamed_def js_def)

text \<open>
  C10. A slot of a day is filled when the slice of the day has an element at the index of
  the slot. The text of a filled slot is the name of its place when that name is not
  empty, and the fallback of the slot when it is empty; so the text equals the name of
  the place exactly when the name is not empty. This holds for each of the five slots of
  every day of \<open>generateItinerary\<close>.
\<close>

theorem empty_name_takes_fallback:
  assumes "1 \<le> days" "k < nat days"
    and "das = dayAttractions A days (int k)" "df = dayFood F days (int k)"
  shows "generateItinerary A F days ! k
           = template (morning das) (lunch df) (afternoon das) (dinner df) (evening das) \<and>
         (0 < length das \<longrightarrow>
            morning das = (if name (das ! 0) = [] then morningFallback else name (das ! 0)) \<and>
            (morning das = name (das ! 0) \<longleftrightarrow> name (das ! 0) \<noteq> [])) \<and>
         (1 < length das \<longrightarrow>
            afternoon das = (if name (das ! 1) = [] then afternoonFallback else name (das ! 1)) \<and>
            (afternoon das = name (das ! 1) \<longleftrightarrow> name (das ! 1) \<noteq> [])) \<and>
         (2 < length das \<longrightarrow>
            evening das = (if name (das ! 2) = [] then eveningFallback else name (das ! 2)) \<and>
            (evening das = name (das ! 2) \<longleftrightarrow> name (das ! 2) \<noteq> [])) \<and>
         (0 < length df \<longrightarrow>
            lunch df = (if name (df ! 0) = [] then lunchFallback else name (df ! 0)) \<and>
            (lunch df = name (df ! 0) \<longleftrightarrow> name (df ! 0) \<noteq> [])) \<and>
         (1 < length df \<longrightarrow>
            dinner df = (if name (df ! 1) = [] then dinnerFallback else name (df ! 1)) \<and>
            (dinner df = name (df ! 1) \<longleftrightarrow> name (df ! 1) \<noteq> []))"
proof -
  have fb: "morningFallback \<noteq> []" "afternoonFallback \<noteq> []" "eveningFallback \<noteq> []"
    "lunchFallback \<noteq> []" "dinnerFallback \<noteq> []"
    by (simp_all add: morningFallback_def afternoonFallback_def eveningFallback_def
        lunchFallback_def dinnerFallback_def js_def)
  have "generateItinerary A F days ! k = dayPlan das df"
    using assms by (simp add: generateItinerary_eq)
  then show ?thesis
    using fb
    by (auto simp: dayPlan_def morning_def afternoon_def evening_def lunch_def dinner_def
        nameOr_def)
qed

theorem empty_name_takes_fallback_witness:
  "generateItinerary [placeNamed [], placeNamed (js ''Orsay'')] [placeNamed []] 1 ! 0
     = template morningFallback lunchFallback (js ''Orsay'') dinnerFallback eveningFallback"
  using empty_name_takes_fallback
    [of 1 0 "dayAttractions [placeNamed [], placeNamed (js ''Orsay'')] 1 0"
        "[placeNamed [], placeNamed (js ''Orsay'')]" "dayFood [placeNamed []] 1 0" "[placeNamed []]"]
  by (simp add: dayAttractions_def dayFood_def perDayAttractions_def perDayFood_def perDay_div
      arraySlice_def placeNamed_def js_def morning_def afternoon_def evening_def lunch_def
      dinner_def nameOr_def)


section \<open>The handler, branch by branch\<close>

lemma js_empty_iff: "js s = [] \<longleftrightarrow> s = []"
  by (simp add: js_def)

lemma parseInt_examples:
  "parseInt (js ''0'') = Some 0"
  "parseInt (js ''-3'') = Some (- 3)"
  "parseInt (js ''abc'') = None"
  "parseInt (js ''3'') = Some 3"
  "parseInt (js ''3 days'') = Some 3"
  "parseInt (js ''0x1F'') = Some 31"
  by (simp_all add: parseInt_def js_def isWhiteSpace_def digitValue_def mathInt_def Let_def)

lemma trim_examples:
  "trim (js ''0'') = js ''0''"
  "trim (js ''-3'') = js ''-3''"
  "trim (js ''abc'') = js ''abc''"
  "trim (js ''3'') = js ''3''"
  "trim (js '' 3 '') = js ''3''"
  "trim (js ''   '') = []"
  "trim (js ''Paris'') = js ''Paris''"
  by (simp_all add: trim_def js_def isWhiteSpace_def)

lemma tryBody_None:
  "currentLocation st = None \<Longrightarrow>
     tryBody w st d = (Throw TypeError, placesLoaded st d [] [], [])"
  by (simp add: tryBody_def)

lemma tryBody_Some:
  "currentLocation st = Some loc \<Longrightarrow>
     tryBody w st d =
       (Normal,
        (placesLoaded st d (fst (fetchPlaces w (Some loc) sightsCategory d))
                           (fst (fetchPlaces w (Some loc) cateringCategory d)))
          \<lparr>messages :=
             messages (sendStarted st) @
               [botMessage (destination st)
                  (fst (fetchPlaces w (Some loc) sightsCategory d))
                  (fst (fetchPlaces w (Some loc) cateringCategory d))
                  (generateItinerary (fst (fetchPlaces w (Some loc) sightsCategory d))
                     (fst (fetchPlaces w (Some loc) cateringCategory d)) d)
                  (fst (fetchWeatherForecast w (lat loc) (lon loc) d))],
           step := Destination\<rparr>,
        [PlacesRequest loc sightsCategory (d * 5), PlacesRequest loc cateringCategory (d * 5),
         WeatherRequest (lat loc) (lon loc) d])"
  by (simp add: tryBody_def fetchWeatherForecast_def placesLoaded_def daysAccepted_def)

lemma tryCatch_fields:
  "isLoading (fst (tryCatch w st d)) = False"
  "currentLocation (fst (tryCatch w st d)) = currentLocation st"
  "tripDays (fst (tryCatch w st d)) = Some d"
  "step (fst (tryCatch w st d)) = (if currentLocation st = None then step st else Destination)"
  by (cases "currentLocation st";
      simp add: tryCatch_def tryBody_None tryBody_Some placesLoaded_def daysAccepted_def
        sendStarted_def)+

lemma tryCatch_requests:
  "currentLocation st \<noteq> None \<Longrightarrow> snd (tryCatch w st d) \<noteq> []"
  by (cases "currentLocation st") (simp_all add: tryCatch_def tryBody_Some)

lemma rejectDays_eq:
  "rejectDays st =
     st\<lparr>messages := messages st @ [plainMessage (input st) False, invalidDaysMessage],
        input := [], isLoading := False\<rparr>"
  by (simp add: rejectDays_def sendStarted_def)

lemma daysBranch_fields:
  "isLoading (fst (daysBranch w st)) = False"
  "currentLocation (fst (daysBranch w st)) = currentLocation st"
  by (simp_all add: daysBranch_def rejectDays_eq tryCatch_fields split: option.splits)

lemma destinationBranch_fields:
  "isLoading (fst (destinationBranch w st)) = False"
  "step (fst (destinationBranch w st)) = Days \<Longrightarrow>
     step st = Days \<or> currentLocation (fst (destinationBranch w st)) \<noteq> None"
  by (simp_all add: destinationBranch_def fetchLocationCoordinates_def sendStarted_def
      split: option.splits list.splits)

lemma handleSend_resolves: "\<not> isLoading st \<Longrightarrow> \<not> isLoading (fst (handleSend w st))"
  by (simp add: handleSend_def daysBranch_fields destinationBranch_fields split: Step.splits)

lemma handleSend_step_location:
  assumes "step st = Days \<longrightarrow> currentLocation st \<noteq> None"
  shows "step (fst (handleSend w st)) = Days
           \<longrightarrow> currentLocation (fst (handleSend w st)) \<noteq> None"
proof (cases "guarded st")
  case True
  with assms show ?thesis by (simp add: handleSend_def)
next
  case False
  show ?thesis
  proof (cases "step st")
    case Destination
    with False show ?thesis
      using destinationBranch_fields(2) [of w st] by (auto simp: handleSend_def)
  next
    case Days
    with False assms show ?thesis
      by (simp add: handleSend_def daysBranch_fields)
  qed
qed

lemma inFlight_fields:
  "st' \<in> set (inFlight w st) \<Longrightarrow>
     step st' = step st \<and> currentLocation st' = currentLocation st \<and> isLoading st'"
  by (auto simp: inFlight_def sendStarted_def daysAccepted_def placesLoaded_def
      split: if_splits Step.splits option.splits)

lemma askedForDays_eq:
  "askedForDays =
     \<lparr>messages = messages initialState
                    @ [plainMessage (js ''Paris'') False, askDaysMessage (js ''Paris'')],
      input = [], isLoading = False, currentLocation = Some paris, allPlaces = [],
      step = Days, destination = js ''Paris'', tripDays = None\<rparr>"
  by (simp add: askedForDays_def handleSend_def guarded_def trim_examples js_empty_iff
      destinationBranch_def fetchLocationCoordinates_def parisWorld_def sendStarted_def
      initialState_def paris_def)

lemma reachable_askedForDays: "reachable askedForDays"
proof -
  have "reachable (initialState\<lparr>input := js ''Paris''\<rparr>)"
    by (rule reach_type [OF reach_init]) (simp add: initialState_def)
  then show ?thesis
    unfolding askedForDays_def by (rule reach_send)
qed

text \<open>
  C6, as amended. In every reachable state of the controller, a location is stored
  whenever the step is the day step. The converse does not hold: no path of the handler
  clears \<open>currentLocation\<close>, so after a completed cycle the step is the destination step
  and the location of that cycle is still stored (the map keeps showing it).
\<close>

theorem days_step_has_location:
  "reachable st \<Longrightarrow> step st = Days \<longrightarrow> currentLocation st \<noteq> None"
proof (induction rule: reachable.induct)
  case reach_init
  show ?case by (simp add: initialState_def)
next
  case (reach_type st s)
  then show ?case by simp
next
  case (reach_send st w)
  from reach_send.IH show ?case by (rule handleSend_step_location)
next
  case (reach_wait st st' w)
  with inFlight_fields [of st' w st] show ?case by simp
qed

theorem days_step_has_location_witness:
  "step askedForDays = Days \<and> currentLocation askedForDays = Some paris"
  using days_step_has_location [OF reachable_askedForDays]
  by (simp add: askedForDays_eq)

text \<open>
  C6 as stated fails: after \<^verbatim>\<open>Paris\<close> and then \<^verbatim>\<open>3\<close> have been sent, the controller is in
  a reachable state of the destination step in which the location is set.
\<close>

theorem location_iff_days_counterexample:
  "reachable cycleEnd \<and> step cycleEnd = Destination \<and> currentLocation cycleEnd = Some paris"
proof -
  have "reachable (askedForDays\<lparr>input := js ''3''\<rparr>)"
    by (rule reach_type [OF reachable_askedForDays]) (simp add: askedForDays_eq)
  then have "reachable cycleEnd"
    unfolding cycleEnd_def by (rule reach_send)
  moreover have "step cycleEnd = Destination \<and> currentLocation cycleEnd = Some paris"
    by (simp add: cycleEnd_def askedForDays_eq handleSend_def guarded_def trim_examples
        js_empty_iff daysBranch_def parseInt_examples tryCatch_fields)
  ultimately show ?thesis by simp
qed







text \<open>
  C8, as amended. In the day step, when no submission is in flight and the input is not
  blank, an input that \<^verbatim>\<open>parseInt\<close> reads as no number, as zero or as a negative number
  leaves the step, the stored location and every other field but the transcript and the
  input box as they were, sends no request, and appends the user's message and exactly
  one validation message. An input read as a positive number \<open>d\<close> proceeds: the trip
  length becomes \<open>d\<close>, and requests are sent when a location is stored. (A blank input is
  dropped by the guard of the handler without any message.)
\<close>

theorem invalid_days_rejected:
  assumes "\<not> isLoading st" "trim (input st) \<noteq> []" "step st = Days"
  shows "(parseInt (trim (input st)) = None \<or> (\<exists>d \<le> 0. parseInt (trim (input st)) = Some d)
            \<longrightarrow> handleSend w st =
                  (st\<lparr>messages := messages st @ [plainMessage (input st) False, invalidDaysMessage],
                      input := []\<rparr>, [])) \<and>
         (\<forall>d. parseInt (trim (input st)) = Some d \<and> 0 < d
            \<longrightarrow> tripDays (fst (handleSend w st)) = Some d \<and>
                (currentLocation st \<noteq> None \<longrightarrow> snd (handleSend w st) \<noteq> []))"
proof -
  have g: "\<not> guarded st"
    using assms(1,2) by (simp add: guarded_def)
  have r: "rejectDays st =
             st\<lparr>messages := messages st @ [plainMessage (input st) False, invalidDaysMessage],
                input := []\<rparr>"
    using assms(1) by (simp add: rejectDays_eq)
  show ?thesis
    using g assms(3)
    by (auto simp: handleSend_def daysBranch_def r tryCatch_fields tryCatch_requests)
qed

theorem invalid_days_rejected_witness:
  "handleSend parisWorld (askedForDays\<lparr>input := js ''0''\<rparr>)
     = (askedForDays\<lparr>messages := messages askedForDays
                          @ [plainMessage (js ''0'') False, invalidDaysMessage]\<rparr>, []) \<and>
   handleSend parisWorld (askedForDays\<lparr>input := js ''-3''\<rparr>)
     = (askedForDays\<lparr>messages := messages askedForDays
                          @ [plainMessage (js ''-3'') False, invalidDaysMessage]\<rparr>, []) \<and>
   handleSend parisWorld (askedForDays\<lparr>input := js ''abc''\<rparr>)
     = (askedForDays\<lparr>messages := messages askedForDays
                          @ [plainMessage (js ''abc'') False, invalidDaysMessage]\<rparr>, []) \<and>
   tripDays (fst (handleSend parisWorld (askedForDays\<lparr>input := js ''3''\<rparr>))) = Some 3 \<and>
   snd (handleSend parisWorld (askedForDays\<lparr>input := js ''3''\<rparr>)) \<noteq> []"
  using invalid_days_rejected [of "askedForDays\<lparr>input := js ''0''\<rparr>" parisWorld]
    invalid_days_rejected [of "askedForDays\<lparr>input := js ''-3''\<rparr>" parisWorld]
    invalid_days_rejected [of "askedForDays\<lparr>input := js ''abc''\<rparr>" parisWorld]
    invalid_days_rejected [of "askedForDays\<lparr>input := js ''3''\<rparr>" parisWorld]
  by (simp add: askedForDays_eq trim_examples js_empty_iff parseInt_examples)

text \<open>
  C8 as stated fails on a blank input, which is not numeric: sent in the day step, three
  spaces leave the whole state as it was, the transcript included, so that no validation
  message is appended.
\<close>

theorem invalid_days_rejected_counterexample:
  "step (askedForDays\<lparr>input := js ''   ''\<rparr>) = Days \<and>
   \<not> isLoading (askedForDays\<lparr>input := js ''   ''\<rparr>) \<and>
   parseInt (js ''   '') = None \<and>
   handleSend parisWorld (askedForDays\<lparr>input := js ''   ''\<rparr>)
     = (askedForDays\<lparr>input := js ''   ''\<rparr>, [])"
proof -
  have "parseInt (js ''   '') = None"
    by (simp add: parseInt_def js_def isWhiteSpace_def Let_def)
  then show ?thesis
    by (simp add: askedForDays_eq handleSend_def guarded_def trim_examples)
qed

text \<open>
  C9. While the loading flag is set, a call of the handler changes nothing: the state is
  returned as it is, no message is appended and no request is sent. The flag is set in
  every state that is on screen while a call waits for the network, and a call started
  with the flag clear ends with the flag clear.
\<close>

theorem in_flight_guard:
  "(isLoading st \<longrightarrow> handleSend w st = (st, [])) \<and>
   (\<forall>st' \<in> set (inFlight w st). isLoading st' \<and> handleSend w' st' = (st', [])) \<and>
   (\<not> isLoading st \<longrightarrow> \<not> isLoading (fst (handleSend w st)))"
proof -
  have l: "handleSend v s = (s, [])" if "isLoading s" for v s
    using that by (simp add: handleSend_def guarded_def)
  show ?thesis
    using l inFlight_fields [of _ w st] handleSend_resolves [of st w] by blast
qed

theorem in_flight_guard_witness:
  "inFlight parisWorld (initialState\<lparr>input := js ''Paris''\<rparr>)
     = [sendStarted (initialState\<lparr>input := js ''Paris''\<rparr>)] \<and>
   handleSend parisWorld (sendStarted (initialState\<lparr>input := js ''Paris''\<rparr>))
     = (sendStarted (initialState\<lparr>input := js ''Paris''\<rparr>), []) \<and>
   \<not> isLoading (fst (handleSend parisWorld (initialState\<lparr>input := js ''Paris''\<rparr>)))"
proof -
  have i: "inFlight parisWorld (initialState\<lparr>input := js ''Paris''\<rparr>)
             = [sendStarted (initialState\<lparr>input := js ''Paris''\<rparr>)]"
    by (simp add: inFlight_def guarded_def trim_examples js_empty_iff initialState_def)
  have n: "\<not> isLoading (initialState\<lparr>input := js ''Paris''\<rparr>)"
    by (simp add: initialState_def)
  show ?thesis
    using in_flight_guard [of "initialState\<lparr>input := js ''Paris''\<rparr>" parisWorld parisWorld] n
    by (simp add: i)
qed

end
